theory Spec2Isabelle
  imports Main
begin

section \<open>The greeting service of app.py\<close>

text \<open>
  The repository is one Flask module, \<^verbatim>\<open>app.py\<close>: it creates the application object,
  registers two view functions with \<^verbatim>\<open>@app.route\<close>, and, when run as a script, calls
  \<^verbatim>\<open>app.run(host='0.0.0.0', port=5000)\<close>. The views are embedded as HOL functions that
  take the application object as explicit state and give it back, so that what a view
  reads or writes of the shared object is visible in its definition.

  Strings are byte strings (\<^typ>\<open>string\<close>): a name is the UTF-8 text of the path
  segment the router hands to the view.
\<close>

subsection \<open>Values\<close>

text \<open>
  The Python values handed to \<^verbatim>\<open>jsonify\<close>: a \<^verbatim>\<open>str\<close>, or a \<^verbatim>\<open>dict\<close> literal with
  string keys, kept as an association list in the order the literal is written.
\<close>

datatype json_value = JString string | JObject "(string \<times> json_value) list"

text \<open>
  The response object a view returns: the status code, the media type and the JSON
  document of the body (what \<^verbatim>\<open>response.json\<close> reads in test_app.py).
\<close>

record response =
  status_code :: int
  mimetype :: string
  json :: json_value

text \<open>A view either returns a response or raises; an exception is carried as a value.\<close>

datatype exn = Exception string

type_synonym 'a result = "exn + 'a"

text \<open>
  Modelled from the spec: \<^verbatim>\<open>jsonify\<close> is imported from the Flask package
  (\<^verbatim>\<open>from flask import Flask, jsonify\<close>) and its code is not part of the repository.
  The spec describes what it yields for the two views: the value serialised as the
  JSON body, HTTP status 200, and Content-Type \<^verbatim>\<open>application/json\<close>.
\<close>

definition jsonify :: "json_value \<Rightarrow> response" where
  "jsonify v = \<lparr>status_code = 200, mimetype = ''application/json'', json = v\<rparr>"

text \<open>
  An f-string is a sequence of literal pieces and of replacement fields. A replacement
  field \<^verbatim>\<open>{name}\<close> with no conversion and no format spec formats the value with the
  empty spec, which for a \<^verbatim>\<open>str\<close> is the string itself. The pieces are joined in order.
\<close>

datatype fpart = Lit string | Field string

fun format_part :: "fpart \<Rightarrow> string" where
  "format_part (Lit s) = s"
| "format_part (Field v) = v"

definition fstring :: "fpart list \<Rightarrow> string" where
  "fstring ps = concat (map format_part ps)"

subsection \<open>The application object and the module body\<close>

text \<open>
  The view functions a rule can be bound to: the two of app.py, and the static-file view
  of the Flask package, which the application object carries from its construction.
\<close>

datatype view = View_static | View_hello | View_health

text \<open>
  The application object \<^verbatim>\<open>app\<close>, the only module-level variable of app.py: the name it
  was created with and the rules registered on it, in registration order.
\<close>

record flask_app =
  import_name :: string
  url_map :: "(string \<times> view) list"

text \<open>
  The constructor \<^verbatim>\<open>Flask(__name__)\<close> belongs to the Flask package, not to the
  repository. Called as app.py calls it, with the import name alone, it keeps the default
  static folder and therefore installs one rule of its own, \<^verbatim>\<open>/static/<path:filename>\<close>
  bound to the package's static-file view, before the module registers anything.
\<close>

definition Flask :: "string \<Rightarrow> flask_app" where
  "Flask name = \<lparr>import_name = name, url_map = [(''/static/<path:filename>'', View_static)]\<rparr>"

text \<open>\<^verbatim>\<open>@app.route(rule)\<close> above \<^verbatim>\<open>def f\<close>: the rule is added to the table, bound to f.\<close>

definition route :: "string \<Rightarrow> view \<Rightarrow> flask_app \<Rightarrow> flask_app" where
  "route rule f a = a\<lparr>url_map := url_map a @ [(rule, f)]\<rparr>"

text \<open>
  \<^verbatim>\<open>
  @app.route('/hello/<name>')
  def hello(name):
      return jsonify({'message': f'Hello, {name}!'})
  \<close>
\<close>

definition hello :: "string \<Rightarrow> flask_app \<Rightarrow> response result \<times> flask_app" where
  "hello name a =
     (Inr (jsonify (JObject [(''message'', JString (fstring [Lit ''Hello, '', Field name, Lit ''!'']))])), a)"

text \<open>
  \<^verbatim>\<open>
  @app.route('/health')
  def health():
      return jsonify({'status': 'healthy'})
  \<close>
\<close>

definition health :: "flask_app \<Rightarrow> response result \<times> flask_app" where
  "health a = (Inr (jsonify (JObject [(''status'', JString ''healthy'')])), a)"

text \<open>
  The module body down to line 14, executed once when the module is loaded under the
  name \<^verbatim>\<open>__name__\<close>: the constructor call, then the two decorators in source order.
\<close>

definition app :: "string \<Rightarrow> flask_app" where
  "app name = route ''/health'' View_health (route ''/hello/<name>'' View_hello (Flask name))"

text \<open>
  What the process offers the program when it starts: the value of \<^verbatim>\<open>__name__\<close>, the environment
  variables and the command line.
\<close>

record process =
  dunder_name :: string
  environ :: "(string \<times> string) list"
  argv :: "string list"

text \<open>The keyword arguments of a call of \<^verbatim>\<open>app.run\<close>.\<close>

record run_args =
  host :: string
  port :: int

text \<open>
  The whole module: the application object it builds, and the call of \<^verbatim>\<open>app.run\<close> it
  makes, if any.
  \<^verbatim>\<open>
  if __name__ == '__main__':
      app.run(host='0.0.0.0', port=5000)
  \<close>
\<close>

definition main :: "process \<Rightarrow> flask_app \<times> run_args option" where
  "main p =
     (let a = app (dunder_name p)
      in (a, if dunder_name p = ''__main__''
             then Some \<lparr>host = ''0.0.0.0'', port = 5000\<rparr>
             else None))"

subsection \<open>Serving\<close>

text \<open>
  Once the router has matched a request, the server calls the view bound to the rule:
  \<^verbatim>\<open>hello\<close> with the captured name, or \<^verbatim>\<open>health\<close> with no argument. A served history is
  a list of such calls, each running on the application object the previous one left.
  A view that raised would not stop the server, so the list goes on after an error.
  A request for a static file is answered by the package's own view and runs no code of
  the module, so it is no step of a history.
\<close>

datatype invocation = Call_hello string | Call_health

fun invoke :: "invocation \<Rightarrow> flask_app \<Rightarrow> response result \<times> flask_app" where
  "invoke (Call_hello name) a = hello name a"
| "invoke Call_health a = health a"

fun serve :: "invocation list \<Rightarrow> flask_app \<Rightarrow> response result list \<times> flask_app" where
  "serve [] a = ([], a)"
| "serve (c # cs) a =
     (case invoke c a of (r, a') \<Rightarrow>
        (case serve cs a' of (rs, a'') \<Rightarrow> (r # rs, a'')))"

text \<open>
  \<^verbatim>\<open>response.json[key]\<close>, as test_app.py reads a response: the value under the key in
  the body's JSON object, or nothing when there is no response or no such key.
\<close>

definition json_field :: "string \<Rightarrow> response result \<Rightarrow> json_value option" where
  "json_field k res =
     (case res of
        Inl e \<Rightarrow> None
      | Inr r \<Rightarrow> (case json r of JObject kvs \<Rightarrow> map_of kvs k | JString s \<Rightarrow> None))"

section \<open>Properties\<close>

subsection \<open>Helper facts\<close>

lemma fstring_hello: "fstring [Lit ''Hello, '', Field name, Lit ''!''] = ''Hello, '' @ name @ ''!''"
  by (simp add: fstring_def)

lemma invoke_state: "snd (invoke c a) = a"
  by (cases c) (simp_all add: hello_def health_def)

lemma serve_Cons:
  "serve (c # cs) a =
     (fst (invoke c a) # fst (serve cs (snd (invoke c a))), snd (serve cs (snd (invoke c a))))"
  by (simp split: prod.splits)

lemma serve_state: "snd (serve cs a) = a"
proof (induction cs arbitrary: a)
  case Nil
  show ?case by simp
next
  case (Cons c cs)
  show ?case unfolding serve_Cons by (simp add: invoke_state Cons.IH)
qed

lemma serve_responses: "fst (serve cs a) = map (\<lambda>c. fst (invoke c a)) cs"
proof (induction cs)
  case Nil
  show ?case by simp
next
  case (Cons c cs)
  show ?case unfolding serve_Cons by (simp add: invoke_state Cons.IH)
qed

lemma hello_response:
  "fst (hello s a) =
     Inr \<lparr>status_code = 200, mimetype = ''application/json'',
          json = JObject [(''message'', JString (''Hello, '' @ s @ ''!''))]\<rparr>"
  by (simp add: hello_def jsonify_def fstring_hello)

lemma health_response:
  "fst (health a) =
     Inr \<lparr>status_code = 200, mimetype = ''application/json'',
          json = JObject [(''status'', JString ''healthy'')]\<rparr>"
  by (simp add: health_def jsonify_def)

lemma url_map_app:
  "url_map (app n) = url_map (Flask n) @ [(''/hello/<name>'', View_hello), (''/health'', View_health)]"
  by (simp add: app_def route_def)

lemma url_map_Flask: "url_map (Flask n) = [(''/static/<path:filename>'', View_static)]"
  by (simp add: Flask_def)

subsection \<open>The scenarios of test_app.py, at the views\<close>

lemma test_hello_endpoint:
  "map_sum id status_code (fst (hello ''World'' (app ''app''))) = Inr 200
   \<and> json_field ''message'' (fst (hello ''World'' (app ''app''))) = Some (JString ''Hello, World!'')"
  by (simp add: hello_response json_field_def)

lemma test_health_endpoint:
  "map_sum id status_code (fst (health (app ''app''))) = Inr 200
   \<and> json_field ''status'' (fst (health (app ''app''))) = Some (JString ''healthy'')"
  by (simp add: health_response json_field_def)

subsection \<open>The claims\<close>

text \<open>
  C1. For every name \<open>s\<close>, hence for every name the route matcher lets through, the view
  \<^verbatim>\<open>hello\<close> answers with status 200 and the JSON object whose single field \<^verbatim>\<open>message\<close>
  is the concatenation of \<^verbatim>\<open>Hello, \<close>, \<open>s\<close> and \<^verbatim>\<open>!\<close>; so does the served call of the
  view with that name.
\<close>

theorem hello_greeting:
  "fst (hello s a) =
     Inr \<lparr>status_code = 200, mimetype = ''application/json'',
          json = JObject [(''message'', JString (''Hello, '' @ s @ ''!''))]\<rparr>
   \<and> fst (invoke (Call_hello s) a) = fst (hello s a)"
  by (simp add: hello_response)

text \<open>
  C2. The view \<^verbatim>\<open>health\<close> never raises and always answers with status 200 and the body
  \<^verbatim>\<open>{"status": "healthy"}\<close>: on any application object, after any history of served
  calls, and twice in a row with the same response.
\<close>

theorem health_always_healthy:
  "fst (health a) =
     Inr \<lparr>status_code = 200, mimetype = ''application/json'',
          json = JObject [(''status'', JString ''healthy'')]\<rparr>
   \<and> fst (invoke Call_health (snd (serve cs a))) = fst (health a)
   \<and> fst (serve (cs @ [Call_health, Call_health]) a)
       = fst (serve cs a) @ [fst (health a), fst (health a)]"
  by (simp add: health_response serve_responses)

text \<open>
  C3. The view \<^verbatim>\<open>hello\<close> returns a response for every string, whatever characters it
  holds, and the name stands in the message unchanged: the message is the name's bytes
  between the seven bytes of \<^verbatim>\<open>Hello, \<close> and the final \<^verbatim>\<open>!\<close>, with nothing added,
  dropped or replaced.
\<close>

theorem hello_total_verbatim:
  "\<exists>r m. fst (hello s a) = Inr r
     \<and> json_field ''message'' (fst (hello s a)) = Some (JString m)
     \<and> length m = length ''Hello, '' + length s + length ''!''
     \<and> take (length ''Hello, '') m = ''Hello, ''
     \<and> take (length s) (drop (length ''Hello, '') m) = s
     \<and> drop (length ''Hello, '' + length s) m = ''!''"
  by (simp add: hello_response json_field_def)

text \<open>
  C4. Both views are functions of their argument alone. The response of \<^verbatim>\<open>hello\<close> to a
  name, and the response of \<^verbatim>\<open>health\<close>, are the same on any two application objects
  and after any two histories of served calls; no view changes the application object;
  and the responses of a whole history do not depend on the object it started from.
  Requests served at the same time are covered as histories in any order, a view being
  one step that neither reads nor writes the shared object.
\<close>

theorem handlers_pure:
  "fst (hello n (snd (serve cs1 a1))) = fst (hello n (snd (serve cs2 a2)))
   \<and> fst (health (snd (serve cs1 a1))) = fst (health (snd (serve cs2 a2)))
   \<and> snd (hello n a1) = a1
   \<and> snd (health a1) = a1
   \<and> snd (serve cs1 a1) = a1
   \<and> fst (serve cs1 a1) = fst (serve cs1 a2)"
proof -
  have "fst (invoke c a1) = fst (invoke c a2)" for c
    by (cases c) (simp_all add: hello_response health_response)
  then have "fst (serve cs1 a1) = fst (serve cs1 a2)"
    by (simp add: serve_responses)
  then show ?thesis
    by (simp add: serve_state hello_response health_response) (simp add: hello_def health_def)
qed

text \<open>
  C6. Every response of the two views carries the media type \<^verbatim>\<open>application/json\<close>:
  the greeting for any name, the health status, and each response of any served history.
\<close>

theorem responses_are_json:
  "map_sum id mimetype (fst (hello n a)) = Inr ''application/json''
   \<and> map_sum id mimetype (fst (health a)) = Inr ''application/json''
   \<and> map (map_sum id mimetype) (fst (serve cs a)) = replicate (length cs) (Inr ''application/json'')"
proof -
  have one: "map_sum id mimetype (fst (invoke c a)) = Inr ''application/json''" for c
    by (cases c) (simp_all add: hello_response health_response)
  have "map (map_sum id mimetype) (fst (serve cs a)) = replicate (length cs) (Inr ''application/json'')"
    by (simp add: serve_responses one map_replicate_const comp_def)
  then show ?thesis
    by (simp add: hello_response health_response)
qed

text \<open>
  C7. Run as a script (\<^verbatim>\<open>__name__\<close> is \<^verbatim>\<open>__main__\<close>), the module calls \<^verbatim>\<open>app.run\<close> with
  host \<^verbatim>\<open>0.0.0.0\<close> and port 5000, whatever the environment variables and the command
  line are.
\<close>

theorem main_binds_all_interfaces_5000:
  "snd (main \<lparr>dunder_name = ''__main__'', environ = env, argv = args\<rparr>)
     = Some \<lparr>host = ''0.0.0.0'', port = 5000\<rparr>"
  by (simp add: main_def)

text \<open>
  C8, as the claim words it, fails: the table of the loaded module does not hold exactly
  the two rules \<^verbatim>\<open>/hello/<name>\<close> and \<^verbatim>\<open>/health\<close>. The rule for static files, which
  the constructor installed, is in it as well, so it has three rules.
\<close>

theorem url_map_exactly_two_counterexample:
  "url_map (fst (main \<lparr>dunder_name = ''__main__'', environ = [], argv = []\<rparr>))
     \<noteq> [(''/hello/<name>'', View_hello), (''/health'', View_health)]
   \<and> (''/static/<path:filename>'', View_static)
       \<in> set (url_map (fst (main \<lparr>dunder_name = ''__main__'', environ = [], argv = []\<rparr>)))
   \<and> length (url_map (fst (main \<lparr>dunder_name = ''__main__'', environ = [], argv = []\<rparr>))) = 3"
  by (simp add: main_def app_def route_def Flask_def)

text \<open>
  C8, amended. The table is built once, when the module is loaded: to the rule the
  constructor installed for static files the module adds exactly the two rules
  \<^verbatim>\<open>/hello/<name>\<close> and \<^verbatim>\<open>/health\<close>, in this order and bound to their views, so the
  table holds these three rules and no other. It is read-only thereafter: no served
  call, and no history of served calls, adds, removes or rebinds a rule of any
  application object.
\<close>

theorem url_map_fixed:
  "url_map (fst (main p))
     = url_map (Flask (dunder_name p)) @ [(''/hello/<name>'', View_hello), (''/health'', View_health)]
   \<and> url_map (fst (main p))
     = [(''/static/<path:filename>'', View_static), (''/hello/<name>'', View_hello), (''/health'', View_health)]
   \<and> url_map (snd (invoke c a)) = url_map a
   \<and> url_map (snd (serve cs (fst (main p)))) = url_map (fst (main p))"
  by (simp add: main_def url_map_app url_map_Flask invoke_state serve_state)

text \<open>
  C10. The view \<^verbatim>\<open>hello\<close> is injective: two names whose responses have the same
  \<^verbatim>\<open>message\<close> field are the same name.
\<close>

theorem hello_injective:
  "json_field ''message'' (fst (hello x a)) = json_field ''message'' (fst (hello y b)) \<Longrightarrow> x = y"
  by (simp add: hello_response json_field_def)

theorem hello_injective_witness:
  "json_field ''message'' (fst (hello ''World'' (app ''__main__'')))
     = json_field ''message'' (fst (hello ''World'' (app ''app'')))
   \<and> ''World'' = ''World''"
proof -
  have h: "json_field ''message'' (fst (hello ''World'' (app ''__main__'')))
             = json_field ''message'' (fst (hello ''World'' (app ''app'')))"
    by (simp add: hello_def json_field_def jsonify_def fstring_def)
  show ?thesis using h hello_injective [OF h] by simp
qed

end
